theory Spec2Isabelle
  imports Complex_Main
begin

section \<open>JavaScript values seen by the handler\<close>

text \<open>
  The worker of \<^verbatim>\<open>src/index.ts\<close> is a single \<^verbatim>\<open>fetch(request, env)\<close> handler. It reads
  the method, the path and the query string of the request, at most once the parsed JSON
  body, and talks to the database binding \<^verbatim>\<open>env.DB\<close>. A parsed JSON value is a tree; an
  object is kept as the list of its entries, with distinct keys, in the order
  \<^verbatim>\<open>Object.keys\<close> reports them.
\<close>

datatype json =
    JNull
  | JBool bool
  | JNum rat
  | JStr string
  | JArr "json list"
  | JObj "(string \<times> json) list"

text \<open>
  A number in a JSON value is the finite number the parser produced. A thrown value is
  \<^verbatim>\<open>null\<close>, \<^verbatim>\<open>undefined\<close>, or a value on which \<^verbatim>\<open>.message\<close> can be read: an error
  object with its message text, or a value without a message. A message that is present is
  text.
\<close>

datatype thrown = ThrownNull | ThrownUndefined | Thrown "string option"

text \<open>What \<^verbatim>\<open>parseInt\<close> may return, and an argument of \<^verbatim>\<open>bind\<close>: such a number, or
  a JSON value (a path string included).\<close>

datatype number = NaN | Infinity | MinusInfinity | MinusZero | Num rat

datatype param = PNumber number | PVal json

fun truthy :: "json \<Rightarrow> bool" where
  "truthy JNull = False"
| "truthy (JBool b) = b"
| "truthy (JNum n) = (n \<noteq> 0)"
| "truthy (JStr s) = (s \<noteq> [])"
| "truthy (JArr xs) = True"
| "truthy (JObj kvs) = True"

fun show_nat :: "nat \<Rightarrow> string" where
  "show_nat n =
     (if n < 10 then [char_of (48 + n)]
      else show_nat (n div 10) @ [char_of (48 + n mod 10)])"

declare show_nat.simps [simp del]

text \<open>
  \<^verbatim>\<open>Object.keys\<close> and \<^verbatim>\<open>Object.values\<close>: the entries of an object, the indices of an
  array, the indices of a string. Numbers and booleans have no own enumerable keys. The
  handler guards both calls by \<^verbatim>\<open>!body\<close>, so they never see \<^verbatim>\<open>null\<close>.
\<close>

fun object_keys :: "json \<Rightarrow> string list" where
  "object_keys (JObj kvs) = map fst kvs"
| "object_keys (JArr xs) = map show_nat [0..<length xs]"
| "object_keys (JStr s) = map show_nat [0..<length s]"
| "object_keys (JNum n) = []"
| "object_keys (JBool b) = []"
| "object_keys JNull = []"

fun object_values :: "json \<Rightarrow> json list" where
  "object_values (JObj kvs) = map snd kvs"
| "object_values (JArr xs) = xs"
| "object_values (JStr s) = map (\<lambda>c. JStr [c]) s"
| "object_values (JNum n) = []"
| "object_values (JBool b) = []"
| "object_values JNull = []"

fun join :: "string \<Rightarrow> string list \<Rightarrow> string" where
  "join sep [] = []"
| "join sep [x] = x"
| "join sep (x # y # ys) = x @ sep @ join sep (y # ys)"

text \<open>\<^verbatim>\<open>String.prototype.split\<close> on a one-character separator. The result always has a
  first piece, so the empty case of the rest is never taken.\<close>

fun split :: "char \<Rightarrow> string \<Rightarrow> string list" where
  "split d [] = [[]]"
| "split d (c # cs) =
     (case split d cs of
        [] \<Rightarrow> []
      | w # ws \<Rightarrow> if c = d then [] # w # ws else (c # w) # ws)"

section \<open>The engine\<close>

text \<open>
  Two things the handler leaves to the JavaScript engine are parameters of the model, so
  that every theorem holds for whatever the engine does: the global \<^verbatim>\<open>parseInt\<close>, and the
  comparison \<^verbatim>\<open>v > 0\<close> with its coercion of \<open>v\<close> to a number, which answers or throws.
\<close>

record Engine =
  parseInt :: "string \<Rightarrow> number"
  greater_than_zero :: "json \<Rightarrow> thrown + bool"

section \<open>Request, database binding, response\<close>

text \<open>
  Of the request the handler uses \<^verbatim>\<open>request.method\<close>, \<^verbatim>\<open>url.pathname\<close>,
  \<^verbatim>\<open>url.searchParams\<close> and \<^verbatim>\<open>await request.json()\<close>. The last one either yields the
  parsed value or throws; a request that carries no body at all makes it throw a syntax
  error (\<open>no_body\<close>). The headers are part of the request although the handler never reads
  them.
\<close>

record Request =
  request_method :: string
  pathname :: string
  searchParams :: "(string \<times> string) list"
  headers :: "(string \<times> string) list"
  body_json :: "thrown + json"

definition no_body :: "thrown + json" where
  "no_body = Inl (Thrown (Some ''Unexpected end of JSON input''))"

definition searchParams_get :: "Request \<Rightarrow> string \<Rightarrow> string option" where
  "searchParams_get request k = map_of (searchParams request) k"

text \<open>
  The database binding: \<^verbatim>\<open>prepare(q).bind(...ps)\<close> followed by \<^verbatim>\<open>all()\<close>, \<^verbatim>\<open>first()\<close> or
  \<^verbatim>\<open>run()\<close>. Each returns a result or throws. The statement text is whatever value the
  handler passes to \<^verbatim>\<open>prepare\<close>. What \<^verbatim>\<open>first()\<close> returns is a value, \<^verbatim>\<open>null\<close> when there
  is no row. The binding is a parameter of the handler: nothing is assumed about what it
  answers.
\<close>

record D1AllResult =
  d1_results :: "json list"
  d1_meta :: json

record D1RunResult =
  d1_success :: bool
  last_row_id :: int
  changes :: int

record D1Database =
  stmt_all :: "json \<Rightarrow> param list \<Rightarrow> thrown + D1AllResult"
  stmt_first :: "json \<Rightarrow> param list \<Rightarrow> thrown + json"
  stmt_run :: "json \<Rightarrow> param list \<Rightarrow> thrown + D1RunResult"

record Env =
  DB :: D1Database

datatype d1_method = CallAll | CallFirst | CallRun

type_synonym db_call = "d1_method \<times> json \<times> param list"

record JsonResponse =
  success :: bool
  data :: "json option"
  error :: "string option"
  meta :: "json option"

text \<open>The body of a response: none, the static HTML page of \<^verbatim>\<open>getApiDocs()\<close> (its text
  is not spelled out), or \<^verbatim>\<open>JSON.stringify\<close> of an envelope.\<close>

datatype body = NullBody | ApiDocs | JsonBody JsonResponse

record Response =
  status :: nat
  resp_headers :: "(string \<times> string) list"
  resp_body :: body

definition corsHeaders :: "(string \<times> string) list" where
  "corsHeaders =
     [(''Access-Control-Allow-Origin'', ''*''),
      (''Access-Control-Allow-Methods'', ''GET, POST, PUT, DELETE, OPTIONS''),
      (''Access-Control-Allow-Headers'', ''Content-Type'')]"

definition jsonResponse :: "JsonResponse \<Rightarrow> (string \<times> string) list \<Rightarrow> nat \<Rightarrow> Response" where
  "jsonResponse d hs st =
     \<lparr>status = st,
      resp_headers = hs @ [(''Content-Type'', ''application/json'')],
      resp_body = JsonBody d\<rparr>"

definition failure :: "string \<Rightarrow> JsonResponse" where
  "failure msg = \<lparr>success = False, data = None, error = Some msg, meta = None\<rparr>"

section \<open>Validation and route patterns\<close>

definition is_letter :: "char \<Rightarrow> bool" where
  "is_letter c =
     (let n = of_char c :: nat in (97 \<le> n \<and> n \<le> 122) \<or> (65 \<le> n \<and> n \<le> 90))"

definition is_digit :: "char \<Rightarrow> bool" where
  "is_digit c = (let n = of_char c :: nat in 48 \<le> n \<and> n \<le> 57)"

text \<open>\<^verbatim>\<open>/^[a-zA-Z_][a-zA-Z0-9_]*$/.test(tableName)\<close>: one character of the first class,
  then any number of characters of the second class, up to the end of the input.\<close>

fun isValidTableName :: "string \<Rightarrow> bool" where
  "isValidTableName [] = False"
| "isValidTableName (c # cs) =
     ((is_letter c \<or> c = CHR ''_'') \<and>
      list_all (\<lambda>x. is_letter x \<or> is_digit x \<or> x = CHR ''_'') cs)"

text \<open>The identifier grammar in the words of the specification: non-empty, every character
  an ASCII letter, a digit or an underscore, the first character not a digit.\<close>

definition identifier_grammar :: "string \<Rightarrow> bool" where
  "identifier_grammar name =
     (name \<noteq> [] \<and>
      (\<forall>c \<in> set name. is_letter c \<or> is_digit c \<or> c = CHR ''_'') \<and>
      \<not> is_digit (hd name))"

definition not_slash :: "char \<Rightarrow> bool" where
  "not_slash c = (c \<noteq> CHR ''/'')"

definition strip_prefix :: "string \<Rightarrow> string \<Rightarrow> string option" where
  "strip_prefix p s = (if take (length p) s = p then Some (drop (length p) s) else None)"

text \<open>\<^verbatim>\<open>path.match(/^\/tables\/[^\/]+$/)\<close>\<close>

definition match_table_path :: "string \<Rightarrow> bool" where
  "match_table_path path =
     (case strip_prefix ''/tables/'' path of
        None \<Rightarrow> False
      | Some r \<Rightarrow> takeWhile not_slash r \<noteq> [] \<and> dropWhile not_slash r = [])"

text \<open>\<^verbatim>\<open>path.match(/^\/tables\/[^\/]+\/[^\/]+$/)\<close>\<close>

definition match_record_path :: "string \<Rightarrow> bool" where
  "match_record_path path =
     (case strip_prefix ''/tables/'' path of
        None \<Rightarrow> False
      | Some r \<Rightarrow>
          takeWhile not_slash r \<noteq> [] \<and>
          (case dropWhile not_slash r of
             [] \<Rightarrow> False
           | c # r' \<Rightarrow> takeWhile not_slash r' \<noteq> [] \<and> dropWhile not_slash r' = []))"

section \<open>The handler\<close>

text \<open>
  What the body of the \<^verbatim>\<open>try\<close> block yields: a response or a thrown value, and the calls
  made to the database binding so far.
\<close>

type_synonym outcome = "(thrown + Response) \<times> db_call list"

definition exec_all :: "Env \<Rightarrow> json \<Rightarrow> param list \<Rightarrow> (D1AllResult \<Rightarrow> Response) \<Rightarrow> outcome" where
  "exec_all env q ps k =
     (case stmt_all (DB env) q ps of
        Inl e \<Rightarrow> (Inl e, [(CallAll, q, ps)])
      | Inr result \<Rightarrow> (Inr (k result), [(CallAll, q, ps)]))"

definition exec_first :: "Env \<Rightarrow> json \<Rightarrow> param list \<Rightarrow> (json \<Rightarrow> Response) \<Rightarrow> outcome" where
  "exec_first env q ps k =
     (case stmt_first (DB env) q ps of
        Inl e \<Rightarrow> (Inl e, [(CallFirst, q, ps)])
      | Inr result \<Rightarrow> (Inr (k result), [(CallFirst, q, ps)]))"

definition exec_run :: "Env \<Rightarrow> json \<Rightarrow> param list \<Rightarrow> (D1RunResult \<Rightarrow> Response) \<Rightarrow> outcome" where
  "exec_run env q ps k =
     (case stmt_run (DB env) q ps of
        Inl e \<Rightarrow> (Inl e, [(CallRun, q, ps)])
      | Inr result \<Rightarrow> (Inr (k result), [(CallRun, q, ps)]))"

definition list_tables_sql :: string where
  "list_tables_sql =
     ''SELECT name FROM sqlite_master WHERE type='table' AND name NOT LIKE 'sqlite_%' AND name NOT LIKE '_cf_%''
     @ [CHR 0x27]"

text \<open>\<^verbatim>\<open>x || d\<close> for a string or \<^verbatim>\<open>null\<close>.\<close>

definition or_default :: "string option \<Rightarrow> string \<Rightarrow> string" where
  "or_default x d = (case x of None \<Rightarrow> d | Some v \<Rightarrow> if v = [] then d else v)"

definition invalid_table :: Response where
  "invalid_table = jsonResponse (failure ''Invalid table name'') corsHeaders 400"

definition body_required :: Response where
  "body_required = jsonResponse (failure ''Request body is required'') corsHeaders 400"

definition record_not_found :: Response where
  "record_not_found = jsonResponse (failure ''Record not found'') corsHeaders 404"

definition route_not_found :: Response where
  "route_not_found = jsonResponse (failure ''Route not found'') corsHeaders 404"

definition handle_list_tables :: "Env \<Rightarrow> outcome" where
  "handle_list_tables env =
     exec_all env (JStr list_tables_sql) []
       (\<lambda>result. jsonResponse
          \<lparr>success = True, data = Some (JArr (d1_results result)), error = None, meta = None\<rparr>
          corsHeaders 200)"

definition handle_list_records :: "Engine \<Rightarrow> Request \<Rightarrow> Env \<Rightarrow> outcome" where
  "handle_list_records js request env =
     (let tableName = split CHR ''/'' (pathname request) ! 2 in
      if \<not> isValidTableName tableName then (Inr invalid_table, [])
      else
        let limit = or_default (searchParams_get request ''limit'') ''100'';
            offset = or_default (searchParams_get request ''offset'') ''0''
        in exec_all env (JStr (''SELECT * FROM '' @ tableName @ '' LIMIT ? OFFSET ?''))
             [PNumber (parseInt js limit), PNumber (parseInt js offset)]
             (\<lambda>result. jsonResponse
                \<lparr>success = True, data = Some (JArr (d1_results result)), error = None,
                 meta = Some (d1_meta result)\<rparr>
                corsHeaders 200))"

definition handle_get_record :: "Request \<Rightarrow> Env \<Rightarrow> outcome" where
  "handle_get_record request env =
     (let parts = split CHR ''/'' (pathname request);
          tableName = parts ! 2;
          id = parts ! 3
      in if \<not> isValidTableName tableName then (Inr invalid_table, [])
         else exec_first env (JStr (''SELECT * FROM '' @ tableName @ '' WHERE id = ?''))
                [PVal (JStr id)]
                (\<lambda>result.
                   if \<not> truthy result then record_not_found
                   else jsonResponse
                     \<lparr>success = True, data = Some result, error = None, meta = None\<rparr>
                     corsHeaders 200))"

definition handle_create :: "Request \<Rightarrow> Env \<Rightarrow> outcome" where
  "handle_create request env =
     (let tableName = split CHR ''/'' (pathname request) ! 2 in
      if \<not> isValidTableName tableName then (Inr invalid_table, [])
      else case body_json request of
        Inl e \<Rightarrow> (Inl e, [])
      | Inr body \<Rightarrow>
          if \<not> truthy body \<or> length (object_keys body) = 0 then (Inr body_required, [])
          else
            let columns = object_keys body;
                values = object_values body;
                placeholders = join '', '' (map (\<lambda>c. ''?'') columns);
                query = ''INSERT INTO '' @ tableName @ '' ('' @ join '', '' columns
                          @ '') VALUES ('' @ placeholders @ '')''
            in exec_run env (JStr query) (map PVal values)
                 (\<lambda>result. jsonResponse
                    \<lparr>success = d1_success result,
                     data = Some (JObj [(''lastRowId'', JNum (of_int (last_row_id result))),
                                        (''changes'', JNum (of_int (changes result)))]),
                     error = None, meta = None\<rparr>
                    corsHeaders 201))"

definition handle_update :: "Request \<Rightarrow> Env \<Rightarrow> outcome" where
  "handle_update request env =
     (let parts = split CHR ''/'' (pathname request);
          tableName = parts ! 2;
          id = parts ! 3
      in if \<not> isValidTableName tableName then (Inr invalid_table, [])
      else case body_json request of
        Inl e \<Rightarrow> (Inl e, [])
      | Inr body \<Rightarrow>
          if \<not> truthy body \<or> length (object_keys body) = 0 then (Inr body_required, [])
          else
            let columns = object_keys body;
                values = object_values body;
                setClause = join '', '' (map (\<lambda>col. col @ '' = ?'') columns);
                query = ''UPDATE '' @ tableName @ '' SET '' @ setClause @ '' WHERE id = ?''
            in exec_run env (JStr query) (map PVal values @ [PVal (JStr id)])
                 (\<lambda>result.
                    if changes result = 0 then record_not_found
                    else jsonResponse
                      \<lparr>success = d1_success result,
                       data = Some (JObj [(''changes'', JNum (of_int (changes result)))]),
                       error = None, meta = None\<rparr>
                      corsHeaders 200))"

definition handle_delete :: "Request \<Rightarrow> Env \<Rightarrow> outcome" where
  "handle_delete request env =
     (let parts = split CHR ''/'' (pathname request);
          tableName = parts ! 2;
          id = parts ! 3
      in if \<not> isValidTableName tableName then (Inr invalid_table, [])
         else exec_run env (JStr (''DELETE FROM '' @ tableName @ '' WHERE id = ?''))
                [PVal (JStr id)]
                (\<lambda>result.
                   if changes result = 0 then record_not_found
                   else jsonResponse
                     \<lparr>success = d1_success result,
                      data = Some (JObj [(''changes'', JNum (of_int (changes result)))]),
                      error = None, meta = None\<rparr>
                     corsHeaders 200))"

subsection \<open>The raw query route\<close>

text \<open>
  \<^verbatim>\<open>body.query\<close> and \<^verbatim>\<open>body.params\<close> are read from whatever the body parsed to. Reading a
  property of \<^verbatim>\<open>null\<close> throws; a value that is not an object has neither property.
  \<^verbatim>\<open>body.params.length > 0\<close> is decided here for arrays and strings (their length) and
  for a \<^verbatim>\<open>length\<close> entry that is null, a boolean or a number; for any other \<^verbatim>\<open>length\<close>
  entry of an object the engine decides. Spreading an object that is not iterable throws.
\<close>

fun get_prop :: "json \<Rightarrow> string \<Rightarrow> json option" where
  "get_prop (JObj kvs) k = map_of kvs k"
| "get_prop v k = None"

fun gt_zero :: "Engine \<Rightarrow> json \<Rightarrow> thrown + bool" where
  "gt_zero js JNull = Inr False"
| "gt_zero js (JBool b) = Inr b"
| "gt_zero js (JNum n) = Inr (n > 0)"
| "gt_zero js v = greater_than_zero js v"

definition not_iterable :: thrown where
  "not_iterable =
     Thrown (Some ''Spread syntax requires ...iterable[Symbol.iterator] to be a function'')"

definition null_property :: thrown where
  "null_property = Thrown (Some ''Cannot read properties of null (reading 'query')'')"

fun bind_params :: "Engine \<Rightarrow> json option \<Rightarrow> thrown + param list" where
  "bind_params js None = Inr []"
| "bind_params js (Some (JArr xs)) = Inr (map PVal xs)"
| "bind_params js (Some (JStr s)) = Inr (map (\<lambda>c. PVal (JStr [c])) s)"
| "bind_params js (Some (JObj kvs)) =
     (case map_of kvs ''length'' of
        None \<Rightarrow> Inr []
      | Some l \<Rightarrow>
          (case gt_zero js l of
             Inl e \<Rightarrow> Inl e
           | Inr b \<Rightarrow> if b then Inl not_iterable else Inr []))"
| "bind_params js (Some v) = Inr []"

definition handle_query :: "Engine \<Rightarrow> Request \<Rightarrow> Env \<Rightarrow> outcome" where
  "handle_query js request env =
     (case body_json request of
        Inl e \<Rightarrow> (Inl e, [])
      | Inr body \<Rightarrow>
          if body = JNull then (Inl null_property, [])
          else (case get_prop body ''query'' of
            None \<Rightarrow> (Inr (jsonResponse (failure ''Query is required'') corsHeaders 400), [])
          | Some q \<Rightarrow>
              if \<not> truthy q
              then (Inr (jsonResponse (failure ''Query is required'') corsHeaders 400), [])
              else (case bind_params js (get_prop body ''params'') of
                Inl e \<Rightarrow> (Inl e, [])
              | Inr ps \<Rightarrow>
                  exec_all env q ps
                    (\<lambda>result. jsonResponse
                       \<lparr>success = True, data = Some (JArr (d1_results result)), error = None,
                        meta = Some (d1_meta result)\<rparr>
                       corsHeaders 200))))"

subsection \<open>fetch\<close>

text \<open>\<^verbatim>\<open>new Response(getApiDocs(), {headers: {...corsHeaders, 'Content-Type': 'text/html'}})\<close>\<close>

definition docs_response :: Response where
  "docs_response =
     \<lparr>status = 200,
      resp_headers = corsHeaders @ [(''Content-Type'', ''text/html'')],
      resp_body = ApiDocs\<rparr>"

definition try_block :: "Engine \<Rightarrow> Request \<Rightarrow> Env \<Rightarrow> outcome" where
  "try_block js request env =
     (let path = pathname request; m = request_method request in
      if path = ''/tables'' \<and> m = ''GET'' then handle_list_tables env
      else if match_table_path path \<and> m = ''GET'' then handle_list_records js request env
      else if match_record_path path \<and> m = ''GET'' then handle_get_record request env
      else if match_table_path path \<and> m = ''POST'' then handle_create request env
      else if match_record_path path \<and> m = ''PUT'' then handle_update request env
      else if match_record_path path \<and> m = ''DELETE'' then handle_delete request env
      else if path = ''/query'' \<and> m = ''POST'' then handle_query js request env
      else if path = ''/'' \<and> m = ''GET''
        then (Inr docs_response, [])
      else (Inr route_not_found, []))"

text \<open>
  The \<^verbatim>\<open>catch\<close> block: \<^verbatim>\<open>error.message || 'Internal server error'\<close> in a response with
  status 500. Reading \<^verbatim>\<open>.message\<close> of a thrown \<^verbatim>\<open>null\<close> or \<^verbatim>\<open>undefined\<close> throws in its
  turn, and then the handler produces no response: its promise is rejected.
\<close>

definition error_text :: "string option \<Rightarrow> string" where
  "error_text m =
     (case m of
        None \<Rightarrow> ''Internal server error''
      | Some msg \<Rightarrow> if msg = [] then ''Internal server error'' else msg)"

fun catch_block :: "thrown \<Rightarrow> thrown + Response" where
  "catch_block ThrownNull =
     Inl (Thrown (Some ''Cannot read properties of null (reading 'message')''))"
| "catch_block ThrownUndefined =
     Inl (Thrown (Some ''Cannot read properties of undefined (reading 'message')''))"
| "catch_block (Thrown m) = Inr (jsonResponse (failure (error_text m)) corsHeaders 500)"

text \<open>The handler: the response it resolves to, or the value it rejects with, and the
  calls it made to the database binding.\<close>

definition fetch :: "Engine \<Rightarrow> Request \<Rightarrow> Env \<Rightarrow> outcome" where
  "fetch js request env =
     (if request_method request = ''OPTIONS''
      then (Inr \<lparr>status = 200, resp_headers = corsHeaders, resp_body = NullBody\<rparr>, [])
      else case try_block js request env of
        (Inr response, calls) \<Rightarrow> (Inr response, calls)
      | (Inl e, calls) \<Rightarrow> (catch_block e, calls))"

section \<open>Vocabulary of the properties\<close>

text \<open>A path parameter is what \<^verbatim>\<open>[^\/]+\<close> matches: a non-empty string without a slash.\<close>

definition segment :: "string \<Rightarrow> bool" where
  "segment s = (s \<noteq> [] \<and> CHR ''/'' \<notin> set s)"

definition table_path :: "string \<Rightarrow> string" where
  "table_path t = ''/tables/'' @ t"

definition record_path :: "string \<Rightarrow> string \<Rightarrow> string" where
  "record_path t i = ''/tables/'' @ t @ ''/'' @ i"

text \<open>The status and the error text of the answer, when the handler resolves to one.\<close>

definition status_of :: "thrown + Response \<Rightarrow> nat option" where
  "status_of x = (case x of Inl e \<Rightarrow> None | Inr response \<Rightarrow> Some (status response))"

definition response_error :: "Response \<Rightarrow> string option" where
  "response_error response =
     (case resp_body response of JsonBody j \<Rightarrow> error j | NullBody \<Rightarrow> None | ApiDocs \<Rightarrow> None)"

definition error_of :: "thrown + Response \<Rightarrow> string option" where
  "error_of x = (case x of Inl e \<Rightarrow> None | Inr response \<Rightarrow> response_error response)"

text \<open>No line of the route table applies to the method and the path.\<close>

definition no_route :: "Request \<Rightarrow> bool" where
  "no_route request =
     (let path = pathname request; m = request_method request in
      m \<noteq> ''OPTIONS'' \<and>
      \<not> (path = ''/'' \<and> m = ''GET'') \<and>
      \<not> (path = ''/tables'' \<and> m = ''GET'') \<and>
      \<not> (match_table_path path \<and> (m = ''GET'' \<or> m = ''POST'')) \<and>
      \<not> (match_record_path path \<and> (m = ''GET'' \<or> m = ''PUT'' \<or> m = ''DELETE'')) \<and>
      \<not> (path = ''/query'' \<and> m = ''POST''))"

text \<open>The statements of the specification for one record, and for a create and an update
  with the given columns.\<close>

definition select_sql :: "string \<Rightarrow> string" where
  "select_sql t = ''SELECT * FROM '' @ t @ '' WHERE id = ?''"

definition delete_sql :: "string \<Rightarrow> string" where
  "delete_sql t = ''DELETE FROM '' @ t @ '' WHERE id = ?''"

definition insert_sql :: "string \<Rightarrow> string list \<Rightarrow> string" where
  "insert_sql t cols =
     ''INSERT INTO '' @ t @ '' ('' @ join '', '' cols @ '') VALUES (''
       @ join '', '' (map (\<lambda>c. ''?'') cols) @ '')''"

definition update_sql :: "string \<Rightarrow> string list \<Rightarrow> string" where
  "update_sql t cols =
     ''UPDATE '' @ t @ '' SET '' @ join '', '' (map (\<lambda>col. col @ '' = ?'') cols)
       @ '' WHERE id = ?''"





text \<open>
  The statement the specification prescribes for a request, with its bind parameters: none
  when no route with a statement applies, when the table name is invalid, or when the body
  is missing, empty or without a query text.
\<close>

definition list_sql :: "string \<Rightarrow> string" where
  "list_sql t = ''SELECT * FROM '' @ t @ '' LIMIT ? OFFSET ?''"



text \<open>The interface of the binding: \<^verbatim>\<open>run()\<close> returns the result of a statement that
  succeeded, and throws otherwise. Here for the one call \<open>c\<close>.\<close>

fun run_reports_success :: "Env \<Rightarrow> db_call \<Rightarrow> bool" where
  "run_reports_success env (CallRun, q, ps) =
     (case stmt_run (DB env) q ps of Inl e \<Rightarrow> True | Inr result \<Rightarrow> d1_success result)"
| "run_reports_success env (CallAll, q, ps) = True"
| "run_reports_success env (CallFirst, q, ps) = True"


text \<open>The envelope invariant of the specification.\<close>

definition envelope_ok :: "JsonResponse \<Rightarrow> bool" where
  "envelope_ok j =
     ((\<not> success j \<longrightarrow> error j \<noteq> None \<and> data j = None) \<and> (success j \<longrightarrow> error j = None))"

definition body_envelope_ok :: "body \<Rightarrow> bool" where
  "body_envelope_ok b = (case b of JsonBody j \<Rightarrow> envelope_ok j | NullBody \<Rightarrow> True | ApiDocs \<Rightarrow> True)"

text \<open>The number bound for \<^verbatim>\<open>limit\<close> or \<^verbatim>\<open>offset\<close>: the default when the query string has
  no value or an empty one, otherwise what the engine's \<^verbatim>\<open>parseInt\<close> makes of the value.\<close>

definition bound_number :: "Engine \<Rightarrow> string option \<Rightarrow> rat \<Rightarrow> number" where
  "bound_number js x d =
     (case x of
        None \<Rightarrow> Num d
      | Some v \<Rightarrow> if v = [] then Num d else parseInt js v)"

text \<open>The parsed bodies that are not objects and have no key for the statement builder.\<close>

fun keyless :: "json \<Rightarrow> bool" where
  "keyless JNull = True"
| "keyless (JBool b) = True"
| "keyless (JNum n) = True"
| "keyless (JStr s) = (s = [])"
| "keyless (JArr xs) = (xs = [])"
| "keyless (JObj kvs) = False"

fun is_object :: "json \<Rightarrow> bool" where
  "is_object (JObj kvs) = True"
| "is_object v = False"

subsection \<open>Sample inputs\<close>

text \<open>
  A sample engine. Its \<^verbatim>\<open>parseInt\<close> has the values of the engine's own on the three strings
  the samples use: 100 for \<^verbatim>\<open>'100'\<close>, 0 for \<^verbatim>\<open>'0'\<close>, \<^verbatim>\<open>NaN\<close> for \<^verbatim>\<open>'abc'\<close>. It is not applied to
  any other string.
\<close>

definition sample_js :: Engine where
  "sample_js =
     \<lparr>parseInt = (\<lambda>s. if s = ''100'' then Num 100 else if s = ''0'' then Num 0 else NaN),
      greater_than_zero = (\<lambda>v. Inr False)\<rparr>"

definition sample_db :: D1Database where
  "sample_db =
     \<lparr>stmt_all = (\<lambda>q ps. Inr \<lparr>d1_results = [JObj [(''name'', JStr ''users'')]], d1_meta = JNull\<rparr>),
      stmt_first = (\<lambda>q ps. Inr JNull),
      stmt_run = (\<lambda>q ps. Inr \<lparr>d1_success = True, last_row_id = 7, changes = 0\<rparr>)\<rparr>"

definition sample_env :: Env where
  "sample_env = \<lparr>DB = sample_db\<rparr>"


definition sample_request :: "string \<Rightarrow> string \<Rightarrow> Request" where
  "sample_request m p =
     \<lparr>request_method = m, pathname = p, searchParams = [], headers = [], body_json = no_body\<rparr>"

section \<open>Paths and dispatch\<close>

lemma split_no_sep: "d \<notin> set s \<Longrightarrow> split d s = [s]"
  by (induction s) auto

lemma split_not_empty: "split d s \<noteq> []"
  by (induction s) (auto split: list.splits)

lemma split_sep: "d \<notin> set a \<Longrightarrow> split d (a @ d # b) = a # split d b"
  using split_not_empty [of d b] by (induction a) (auto split: list.splits)

lemma takeWhile_segment: "CHR ''/'' \<notin> set s \<Longrightarrow> takeWhile not_slash (s @ r) = s @ takeWhile not_slash r"
  by (induction s) (auto simp: not_slash_def)

lemma dropWhile_segment: "CHR ''/'' \<notin> set s \<Longrightarrow> dropWhile not_slash (s @ r) = dropWhile not_slash r"
  by (induction s) (auto simp: not_slash_def)

lemma strip_tables: "strip_prefix ''/tables/'' (''/tables/'' @ r) = Some r"
  by (simp add: strip_prefix_def)

lemma table_path_match:
  assumes "segment t"
  shows "match_table_path (table_path t)" and "\<not> match_record_path (table_path t)"
    and "split CHR ''/'' (table_path t) ! 2 = t"
    and "table_path t \<noteq> ''/tables''" and "table_path t \<noteq> ''/query''" and "table_path t \<noteq> ''/''"
proof -
  have ns: "CHR ''/'' \<notin> set t" and ne: "t \<noteq> []" using assms by (auto simp: segment_def)
  have tw: "takeWhile not_slash t = t" and dw: "dropWhile not_slash t = []"
    using takeWhile_segment [OF ns, of "[]"] dropWhile_segment [OF ns, of "[]"] by simp_all
  show "match_table_path (table_path t)"
    unfolding match_table_path_def table_path_def strip_tables by (simp add: tw dw ne)
  show "\<not> match_record_path (table_path t)"
    unfolding match_record_path_def table_path_def strip_tables by (simp add: tw dw ne)
  show "split CHR ''/'' (table_path t) ! 2 = t"
    using split_no_sep [OF ns] by (simp add: table_path_def)
  show "table_path t \<noteq> ''/tables''" "table_path t \<noteq> ''/query''" "table_path t \<noteq> ''/''"
    by (simp_all add: table_path_def)
qed

lemma record_path_match:
  assumes "segment t" and "segment i"
  shows "match_record_path (record_path t i)" and "\<not> match_table_path (record_path t i)"
    and "split CHR ''/'' (record_path t i) ! 2 = t"
    and "split CHR ''/'' (record_path t i) ! 3 = i"
    and "record_path t i \<noteq> ''/tables''" and "record_path t i \<noteq> ''/query''" and "record_path t i \<noteq> ''/''"
proof -
  have ns: "CHR ''/'' \<notin> set t" and ne: "t \<noteq> []" using assms by (auto simp: segment_def)
  have nsi: "CHR ''/'' \<notin> set i" and nei: "i \<noteq> []" using assms by (auto simp: segment_def)
  have tw: "takeWhile not_slash (t @ CHR ''/'' # i) = t"
    and dw: "dropWhile not_slash (t @ CHR ''/'' # i) = CHR ''/'' # i"
    using takeWhile_segment [OF ns, of "CHR ''/'' # i"] dropWhile_segment [OF ns, of "CHR ''/'' # i"]
    by (simp_all add: not_slash_def)
  have twi: "takeWhile not_slash i = i" and dwi: "dropWhile not_slash i = []"
    using takeWhile_segment [OF nsi, of "[]"] dropWhile_segment [OF nsi, of "[]"] by simp_all
  show "match_record_path (record_path t i)"
    unfolding match_record_path_def record_path_def strip_tables using nsi by (auto simp: tw dw twi ne nei not_slash_def)
  show "\<not> match_table_path (record_path t i)"
    unfolding match_table_path_def record_path_def strip_tables by (simp add: tw dw)
  have sp: "split CHR ''/'' (t @ CHR ''/'' # i) = [t, i]"
    using split_sep [OF ns, of i] split_no_sep [OF nsi] by simp
  show "split CHR ''/'' (record_path t i) ! 2 = t" "split CHR ''/'' (record_path t i) ! 3 = i"
    using sp by (simp_all add: record_path_def)
  show "record_path t i \<noteq> ''/tables''" "record_path t i \<noteq> ''/query''" "record_path t i \<noteq> ''/''"
    using ne by (auto simp: record_path_def)
qed

lemma isValidTableName_grammar: "isValidTableName name = identifier_grammar name"
  by (cases name) (auto simp: identifier_grammar_def list_all_iff is_letter_def is_digit_def Let_def)

lemma valid_is_segment: "isValidTableName t \<Longrightarrow> segment t"
  by (cases t) (auto simp: segment_def list_all_iff is_letter_def is_digit_def Let_def)

lemma try_block_table:
  assumes "segment t" and "pathname r = table_path t"
  shows "request_method r = ''GET'' \<Longrightarrow> try_block js r env = handle_list_records js r env"
    and "request_method r = ''POST'' \<Longrightarrow> try_block js r env = handle_create r env"
  using table_path_match [OF assms(1)] assms(2) by (simp_all add: try_block_def)

lemma try_block_record:
  assumes "segment t" and "segment i" and "pathname r = record_path t i"
  shows "request_method r = ''GET'' \<Longrightarrow> try_block js r env = handle_get_record r env"
    and "request_method r = ''PUT'' \<Longrightarrow> try_block js r env = handle_update r env"
    and "request_method r = ''DELETE'' \<Longrightarrow> try_block js r env = handle_delete r env"
  using record_path_match [OF assms(1,2)] assms(3) by (simp_all add: try_block_def)

lemma invalid_table_handlers:
  assumes "\<not> isValidTableName (split CHR ''/'' (pathname r) ! 2)"
  shows "handle_list_records js r env = (Inr invalid_table, [])"
    and "handle_get_record r env = (Inr invalid_table, [])"
    and "handle_create r env = (Inr invalid_table, [])"
    and "handle_update r env = (Inr invalid_table, [])"
    and "handle_delete r env = (Inr invalid_table, [])"
  using assms
  by (simp_all add: handle_list_records_def handle_get_record_def handle_create_def
      handle_update_def handle_delete_def Let_def)

lemma fetch_not_options:
  "request_method r \<noteq> ''OPTIONS'' \<Longrightarrow> try_block js r env = (Inr resp, calls) \<Longrightarrow>
     fetch js r env = (Inr resp, calls)"
  by (simp add: fetch_def)

lemmas sample_simps = sample_request_def sample_env_def sample_db_def sample_js_def no_body_def
  segment_def table_path_def record_path_def is_letter_def is_digit_def

section \<open>Table-name validation runs before the body is read\<close>

text \<open>
  Claim C10. On \<^verbatim>\<open>POST /tables/{table}\<close> and \<^verbatim>\<open>PUT /tables/{table}/{id}\<close> with a table name
  that fails the identifier check, the answer is status 400 with the error
  \<^verbatim>\<open>Invalid table name\<close> and no database call, whatever \<^verbatim>\<open>request.json()\<close> would yield:
  a parsed value of any shape, or a thrown error for an absent or malformed body.
\<close>

theorem invalid_table_name_before_body:
  assumes "segment t" and "segment i" and "\<not> isValidTableName t"
    and "(request_method r = ''POST'' \<and> pathname r = table_path t) \<or>
         (request_method r = ''PUT'' \<and> pathname r = record_path t i)"
  shows "fetch js (r\<lparr>body_json := b\<rparr>) env
           = (Inr (jsonResponse (failure ''Invalid table name'') corsHeaders 400), [])"
proof -
  let ?r = "r\<lparr>body_json := b\<rparr>"
  from assms(4) show ?thesis
  proof
    assume a: "request_method r = ''POST'' \<and> pathname r = table_path t"
    then have p: "pathname ?r = table_path t" and m: "request_method ?r = ''POST''" by simp_all
    have "\<not> isValidTableName (split CHR ''/'' (pathname ?r) ! 2)"
      using table_path_match(3) [OF assms(1)] assms(3) p by simp
    then have "try_block js ?r env = (Inr invalid_table, [])"
      using try_block_table(2) [OF assms(1) p m] invalid_table_handlers(3) by simp
    then show ?thesis
      using m fetch_not_options [of ?r js env] by (simp add: invalid_table_def)
  next
    assume a: "request_method r = ''PUT'' \<and> pathname r = record_path t i"
    then have p: "pathname ?r = record_path t i" and m: "request_method ?r = ''PUT''" by simp_all
    have "\<not> isValidTableName (split CHR ''/'' (pathname ?r) ! 2)"
      using record_path_match(3) [OF assms(1,2)] assms(3) p by simp
    then have "try_block js ?r env = (Inr invalid_table, [])"
      using try_block_record(2) [OF assms(1,2) p m] invalid_table_handlers(4) by simp
    then show ?thesis
      using m fetch_not_options [of ?r js env] by (simp add: invalid_table_def)
  qed
qed

theorem invalid_table_name_before_body_witness:
  "segment ''2fast'' \<and> segment ''7'' \<and> \<not> isValidTableName ''2fast'' \<and>
   fetch sample_js (sample_request ''PUT'' ''/tables/2fast/7'') sample_env
     = (Inr (jsonResponse (failure ''Invalid table name'') corsHeaders 400), [])"
  using invalid_table_name_before_body [of "''2fast''" "''7''"
      "sample_request ''PUT'' ''/tables/2fast/7''" sample_js no_body sample_env]
  by (simp add: sample_simps)

section \<open>The identifier check guards every table-scoped route\<close>

lemmas response_simps = jsonResponse_def failure_def response_error_def invalid_table_def
  body_required_def record_not_found_def route_not_found_def docs_response_def
  status_of_def error_of_def

lemmas exec_simps = exec_all_def exec_first_def exec_run_def

lemma valid_table_handlers:
  assumes "isValidTableName (split CHR ''/'' (pathname r) ! 2)"
  shows "handle_list_records js r env = (Inr resp, calls) \<Longrightarrow>
           \<not> (status resp = 400 \<and> response_error resp = Some ''Invalid table name'')"
    and "handle_get_record r env = (Inr resp, calls) \<Longrightarrow>
           \<not> (status resp = 400 \<and> response_error resp = Some ''Invalid table name'')"
    and "handle_create r env = (Inr resp, calls) \<Longrightarrow>
           \<not> (status resp = 400 \<and> response_error resp = Some ''Invalid table name'')"
    and "handle_update r env = (Inr resp, calls) \<Longrightarrow>
           \<not> (status resp = 400 \<and> response_error resp = Some ''Invalid table name'')"
    and "handle_delete r env = (Inr resp, calls) \<Longrightarrow>
           \<not> (status resp = 400 \<and> response_error resp = Some ''Invalid table name'')"
  using assms
  by (auto simp: handle_list_records_def handle_get_record_def handle_create_def
      handle_update_def handle_delete_def Let_def exec_simps response_simps
      split: sum.splits option.splits if_splits)

lemma fetch_cases:
  assumes "request_method r \<noteq> ''OPTIONS''"
  shows "try_block js r env = (Inr resp, calls) \<Longrightarrow> fetch js r env = (Inr resp, calls)"
    and "try_block js r env = (Inl e, calls) \<Longrightarrow> fetch js r env = (catch_block e, calls)"
  using assms by (simp_all add: fetch_def)

lemma catch_block_status: "status_of (catch_block e) \<in> {None, Some 500}"
  by (cases e) (simp_all add: status_of_def jsonResponse_def)

lemma fetch_no_validation_error:
  assumes "request_method r \<noteq> ''OPTIONS''"
    and "\<And>resp calls. try_block js r env = (Inr resp, calls) \<Longrightarrow>
           \<not> (status resp = 400 \<and> response_error resp = Some ''Invalid table name'')"
  shows "\<not> (status_of (fst (fetch js r env)) = Some 400 \<and>
            error_of (fst (fetch js r env)) = Some ''Invalid table name'')"
proof (cases "try_block js r env")
  case (Pair x calls)
  show ?thesis
  proof (cases x)
    case (Inl e)
    then show ?thesis
      using fetch_cases(2) [OF assms(1), of js env e calls] Pair catch_block_status [of e]
      by auto
  next
    case (Inr resp)
    then show ?thesis using fetch_cases(1) [OF assms(1), of js env resp calls] Pair assms(2)
      by (simp add: status_of_def error_of_def)
  qed
qed

text \<open>
  Claim C2. The check of the handler accepts a table name exactly when the name follows
  the identifier grammar (non-empty, ASCII letters, digits and underscores only, no leading
  digit). On each of the five table-scoped routes a name that fails the check is answered
  with status 400 and the error \<^verbatim>\<open>Invalid table name\<close> without any database call, and a
  name that passes it is never answered with that validation error.
\<close>

theorem table_name_validation:
  assumes "segment t" and "segment i"
    and "(request_method r, pathname r) \<in>
           {(''GET'', table_path t), (''POST'', table_path t), (''GET'', record_path t i),
            (''PUT'', record_path t i), (''DELETE'', record_path t i)}"
  shows "(isValidTableName t = identifier_grammar t) \<and>
         (\<not> isValidTableName t \<longrightarrow>
            fetch js r env = (Inr (jsonResponse (failure ''Invalid table name'') corsHeaders 400), [])) \<and>
         (isValidTableName t \<longrightarrow>
            \<not> (status_of (fst (fetch js r env)) = Some 400 \<and>
               error_of (fst (fetch js r env)) = Some ''Invalid table name''))"
proof -
  have no: "request_method r \<noteq> ''OPTIONS''" using assms(3) by auto
  have name: "split CHR ''/'' (pathname r) ! 2 = t"
    using assms(3) table_path_match(3) [OF assms(1)] record_path_match(3) [OF assms(1,2)] by auto
  obtain h where h: "try_block js r env = h"
    and hs: "h \<in> {handle_list_records js r env, handle_create r env, handle_get_record r env,
                  handle_update r env, handle_delete r env}"
    using assms(3) try_block_table [OF assms(1), of r js env]
      try_block_record [OF assms(1,2), of r js env] by auto
  have bad: "fetch js r env = (Inr (jsonResponse (failure ''Invalid table name'') corsHeaders 400), [])"
    if "\<not> isValidTableName t"
  proof -
    have "h = (Inr invalid_table, [])"
      using hs invalid_table_handlers(1) [of r js env] invalid_table_handlers(2-5) [of r env] that name by auto
    then show ?thesis using fetch_cases(1) [OF no, of js env] h by (simp add: invalid_table_def)
  qed
  have good: "\<not> (status_of (fst (fetch js r env)) = Some 400 \<and>
               error_of (fst (fetch js r env)) = Some ''Invalid table name'')"
    if v: "isValidTableName t"
  proof (rule fetch_no_validation_error [OF no])
    fix resp calls assume "try_block js r env = (Inr resp, calls)"
    then have "h = (Inr resp, calls)" using h by simp
    moreover have "isValidTableName (split CHR ''/'' (pathname r) ! 2)" using v name by simp
    ultimately show "\<not> (status resp = 400 \<and> response_error resp = Some ''Invalid table name'')"
      using hs valid_table_handlers(1) [of r js env resp calls]
        valid_table_handlers(2-5) [of r env resp calls] by auto
  qed
  show ?thesis using bad good isValidTableName_grammar by blast
qed

theorem table_name_validation_witness:
  "segment ''users;x'' \<and> segment ''7'' \<and> \<not> isValidTableName ''users;x'' \<and>
   \<not> identifier_grammar ''users;x'' \<and>
   fetch sample_js (sample_request ''DELETE'' ''/tables/users;x/7'') sample_env
     = (Inr (jsonResponse (failure ''Invalid table name'') corsHeaders 400), []) \<and>
   isValidTableName ''users'' \<and>
   \<not> (status_of (fst (fetch sample_js (sample_request ''GET'' ''/tables/users'') sample_env))
        = Some 400 \<and>
      error_of (fst (fetch sample_js (sample_request ''GET'' ''/tables/users'') sample_env))
        = Some ''Invalid table name'')"
  using table_name_validation [of "''users;x''" "''7''"
      "sample_request ''DELETE'' ''/tables/users;x/7''" sample_js sample_env]
    table_name_validation [of "''users''" "''7''"
      "sample_request ''GET'' ''/tables/users''" sample_js sample_env]
  by (simp add: sample_simps)

section \<open>Evaluating the handler on sample requests\<close>

lemmas handler_simps = handle_list_tables_def handle_list_records_def handle_get_record_def
  handle_create_def handle_update_def handle_delete_def handle_query_def

lemmas eval_simps = fetch_def try_block_def handler_simps exec_simps response_simps sample_simps
  match_table_path_def match_record_path_def strip_prefix_def not_slash_def error_text_def
  or_default_def searchParams_get_def

lemma show_nat_small: "show_nat 0 = ''0''" "show_nat 1 = ''1''" "show_nat 2 = ''2''"
  by code_simp+

lemma try_block_ignores_headers: "try_block js (r\<lparr>headers := h\<rparr>) env = try_block js r env"
  by (simp add: try_block_def handler_simps searchParams_get_def cong del: if_weak_cong)

lemma fetch_ignores_headers: "fetch js (r\<lparr>headers := h\<rparr>) env = fetch js r env"
  by (simp add: fetch_def try_block_ignores_headers)

section \<open>Authentication\<close>

text \<open>
  Claim C1. A request to a protected route without a valid \<^verbatim>\<open>X-API-Key\<close> header should be
  answered with status 401 and the error \<^verbatim>\<open>Unauthorized: Invalid or missing API key\<close>,
  and no database call should occur. The handler has no such check: \<^verbatim>\<open>Env\<close> holds only the
  database binding, the headers of the request are never read
  (\<open>fetch_ignores_headers\<close>), and \<^verbatim>\<open>GET /tables\<close> without any header runs the catalogue
  query and answers with status 200.
\<close>

theorem no_credential_check:
  "map_of (headers (sample_request ''GET'' ''/tables'')) ''X-API-Key'' = None \<and>
   fetch sample_js (sample_request ''GET'' ''/tables'') sample_env
     = (Inr (jsonResponse
          \<lparr>success = True, data = Some (JArr [JObj [(''name'', JStr ''users'')]]),
           error = None, meta = None\<rparr> corsHeaders 200),
        [(CallAll, JStr list_tables_sql, [])])"
  by (simp add: eval_simps)

section \<open>Identifiers in the statement text\<close>

text \<open>
  Claim C3. Identifiers should reach the statement text only after the identifier check,
  and this should cover the column names taken from the keys of the request body. The
  handler joins the keys into the \<^verbatim>\<open>INSERT\<close> text as they are: a key that fails the check
  appears verbatim in the statement passed to \<^verbatim>\<open>prepare\<close>.
\<close>

theorem column_names_interpolated_unchecked:
  "\<not> isValidTableName ''name) VALUES (?); --'' \<and>
   snd (fetch sample_js
          ((sample_request ''POST'' ''/tables/users'')
             \<lparr>body_json := Inr (JObj [(''name) VALUES (?); --'', JStr ''x'')])\<rparr>)
          sample_env)
     = [(CallRun, JStr ''INSERT INTO users (name) VALUES (?); --) VALUES (?)'',
         [PVal (JStr ''x'')])]"
  by (simp add: eval_simps)

section \<open>Create without a body\<close>

text \<open>
  Claim C4. \<^verbatim>\<open>POST /tables/{table}\<close> with a valid table name and a missing body should be
  answered with status 400 and the error \<^verbatim>\<open>Request body is required\<close>. In the handler
  \<^verbatim>\<open>await request.json()\<close> throws on a request without body before the \<^verbatim>\<open>!body\<close> test is
  reached, and the outer \<^verbatim>\<open>catch\<close> answers with status 500 and the parser's message.
\<close>

theorem create_without_body_is_500:
  "fetch sample_js ((sample_request ''POST'' ''/tables/users'')\<lparr>body_json := no_body\<rparr>) sample_env
     = (Inr (jsonResponse (failure ''Unexpected end of JSON input'') corsHeaders 500), [])"
  by (simp add: eval_simps)

text \<open>
  The rest of the claim holds: an empty object is answered with status 400 and the error
  \<^verbatim>\<open>Request body is required\<close> without a database call, and a non-empty object gives the
  \<^verbatim>\<open>INSERT\<close> with its values bound and, when \<^verbatim>\<open>run()\<close> returns, status 201 with the last
  inserted id and the number of changed rows.
\<close>

lemma create_with_object_body:
  assumes "isValidTableName t" and "request_method r = ''POST''" and "pathname r = table_path t"
    and "body_json r = Inr (JObj kvs)"
  shows "kvs = [] \<Longrightarrow> fetch js r env = (Inr body_required, [])"
    and "kvs \<noteq> [] \<Longrightarrow>
         stmt_run (DB env) (JStr (insert_sql t (map fst kvs))) (map (\<lambda>kv. PVal (snd kv)) kvs)
           = Inr res \<Longrightarrow>
         fetch js r env
           = (Inr (jsonResponse
                \<lparr>success = d1_success res,
                 data = Some (JObj [(''lastRowId'', JNum (of_int (last_row_id res))),
                                    (''changes'', JNum (of_int (changes res)))]),
                 error = None, meta = None\<rparr> corsHeaders 201),
              [(CallRun, JStr (insert_sql t (map fst kvs)), map (\<lambda>kv. PVal (snd kv)) kvs)])"
proof -
  have seg: "segment t" using assms(1) by (rule valid_is_segment)
  have m: "request_method r \<noteq> ''OPTIONS''" using assms(2) by simp
  have tb: "try_block js r env = handle_create r env"
    using try_block_table(2) [OF seg assms(3,2)] .
  have name: "split CHR ''/'' (pathname r) ! 2 = t"
    using table_path_match(3) [OF seg] assms(3) by simp
  show "kvs = [] \<Longrightarrow> fetch js r env = (Inr body_required, [])"
    using fetch_cases(1) [OF m, of js env] tb name assms(1,4)
    by (simp add: handle_create_def)
  show "kvs \<noteq> [] \<Longrightarrow>
         stmt_run (DB env) (JStr (insert_sql t (map fst kvs))) (map (\<lambda>kv. PVal (snd kv)) kvs)
           = Inr res \<Longrightarrow>
         fetch js r env
           = (Inr (jsonResponse
                \<lparr>success = d1_success res,
                 data = Some (JObj [(''lastRowId'', JNum (of_int (last_row_id res))),
                                    (''changes'', JNum (of_int (changes res)))]),
                 error = None, meta = None\<rparr> corsHeaders 201),
              [(CallRun, JStr (insert_sql t (map fst kvs)), map (\<lambda>kv. PVal (snd kv)) kvs)])"
    using fetch_cases(1) [OF m, of js env] tb name assms(1,4)
    by (simp add: handle_create_def exec_run_def insert_sql_def comp_def)
qed

section \<open>The routes, case by case\<close>

lemma table_not_record:
  assumes "match_table_path p"
  shows "\<not> match_record_path p"
proof (cases "strip_prefix ''/tables/'' p")
  case None
  then show ?thesis by (simp add: match_record_path_def)
next
  case (Some x)
  then have "dropWhile not_slash x = []"
    using assms unfolding match_table_path_def by (simp del: dropWhile_eq_Nil_conv)
  then show ?thesis
    unfolding match_record_path_def using Some by (simp del: dropWhile_eq_Nil_conv)
qed

lemma fixed_paths_no_match:
  "\<not> match_table_path ''/tables''" "\<not> match_record_path ''/tables''"
  "\<not> match_table_path ''/query''" "\<not> match_record_path ''/query''"
  "\<not> match_table_path ''/''" "\<not> match_record_path ''/''"
  by (simp_all add: match_table_path_def match_record_path_def strip_prefix_def)

lemma try_block_cases:
  obtains
    (list_tables) "pathname r = ''/tables''" "request_method r = ''GET''"
      "try_block js r env = handle_list_tables env"
  | (list_records) "match_table_path (pathname r)" "request_method r = ''GET''"
      "try_block js r env = handle_list_records js r env"
  | (get_record) "match_record_path (pathname r)" "request_method r = ''GET''"
      "try_block js r env = handle_get_record r env"
  | (create) "match_table_path (pathname r)" "request_method r = ''POST''"
      "try_block js r env = handle_create r env"
  | (update) "match_record_path (pathname r)" "request_method r = ''PUT''"
      "try_block js r env = handle_update r env"
  | (delete) "match_record_path (pathname r)" "request_method r = ''DELETE''"
      "try_block js r env = handle_delete r env"
  | (query) "pathname r = ''/query''" "request_method r = ''POST''"
      "try_block js r env = handle_query js r env"
  | (docs) "pathname r = ''/''" "request_method r = ''GET''"
      "try_block js r env = (Inr docs_response, [])"
  | (none) "request_method r = ''OPTIONS'' \<or> no_route r"
      "try_block js r env = (Inr route_not_found, [])"
proof -
  consider
      (a) "pathname r = ''/tables'' \<and> request_method r = ''GET''"
    | (b) "match_table_path (pathname r) \<and> request_method r = ''GET''"
    | (c) "match_record_path (pathname r) \<and> request_method r = ''GET''"
    | (d) "match_table_path (pathname r) \<and> request_method r = ''POST''"
    | (e) "match_record_path (pathname r) \<and> request_method r = ''PUT''"
    | (f) "match_record_path (pathname r) \<and> request_method r = ''DELETE''"
    | (g) "pathname r = ''/query'' \<and> request_method r = ''POST''"
    | (h) "pathname r = ''/'' \<and> request_method r = ''GET''"
    | (i) "\<not> (pathname r = ''/tables'' \<and> request_method r = ''GET'')"
          "\<not> (match_table_path (pathname r) \<and> request_method r = ''GET'')"
          "\<not> (match_record_path (pathname r) \<and> request_method r = ''GET'')"
          "\<not> (match_table_path (pathname r) \<and> request_method r = ''POST'')"
          "\<not> (match_record_path (pathname r) \<and> request_method r = ''PUT'')"
          "\<not> (match_record_path (pathname r) \<and> request_method r = ''DELETE'')"
          "\<not> (pathname r = ''/query'' \<and> request_method r = ''POST'')"
          "\<not> (pathname r = ''/'' \<and> request_method r = ''GET'')"
    by blast
  then show thesis
  proof cases
    case a
    then show thesis using list_tables by (simp add: try_block_def Let_def)
  next
    case b
    then have "pathname r \<noteq> ''/tables''" using fixed_paths_no_match by auto
    then have "try_block js r env = handle_list_records js r env"
      using b by (simp add: try_block_def Let_def)
    then show thesis using list_records b by blast
  next
    case c
    then have "pathname r \<noteq> ''/tables''" "\<not> match_table_path (pathname r)"
      using fixed_paths_no_match table_not_record [of "pathname r"] by auto
    then have "try_block js r env = handle_get_record r env"
      using c by (simp add: try_block_def Let_def)
    then show thesis using get_record c by blast
  next
    case d
    then have "try_block js r env = handle_create r env"
      by (simp add: try_block_def Let_def)
    then show thesis using create d by blast
  next
    case e
    then have "try_block js r env = handle_update r env"
      by (simp add: try_block_def Let_def)
    then show thesis using update e by blast
  next
    case f
    then have "try_block js r env = handle_delete r env"
      by (simp add: try_block_def Let_def)
    then show thesis using delete f by blast
  next
    case g
    then have "try_block js r env = handle_query js r env"
      by (simp add: try_block_def Let_def fixed_paths_no_match)
    then show thesis using query g by blast
  next
    case h
    then have "try_block js r env = (Inr docs_response, [])"
      by (simp add: try_block_def Let_def fixed_paths_no_match)
    then show thesis using docs h by blast
  next
    case i
    have "try_block js r env = (Inr route_not_found, [])"
      by (simp add: try_block_def Let_def i)
    moreover have "request_method r = ''OPTIONS'' \<or> no_route r"
      using i by (auto simp: no_route_def)
    ultimately show thesis using none by blast
  qed
qed

lemma snd_fetch:
  "request_method r \<noteq> ''OPTIONS'' \<Longrightarrow> snd (fetch js r env) = snd (try_block js r env)"
  by (simp add: fetch_def split: prod.splits sum.splits)

lemma fst_fetch:
  assumes "request_method r \<noteq> ''OPTIONS''"
  shows "fst (try_block js r env) = Inr resp \<Longrightarrow> fst (fetch js r env) = Inr resp"
    and "fst (try_block js r env) = Inl e \<Longrightarrow> fst (fetch js r env) = catch_block e"
  using assms by (auto simp: fetch_def split: prod.splits sum.splits)

subsection \<open>The statement each route runs\<close>

lemmas sql_simps = list_sql_def select_sql_def delete_sql_def insert_sql_def update_sql_def

lemma handler_calls:
  "snd (handle_list_tables env) = [(CallAll, JStr list_tables_sql, [])]"
  "snd (handle_list_records js r env)
     = (if isValidTableName (split CHR ''/'' (pathname r) ! 2)
        then [(CallAll, JStr (list_sql (split CHR ''/'' (pathname r) ! 2)),
               [PNumber (parseInt js (or_default (searchParams_get r ''limit'') ''100'')),
                PNumber (parseInt js (or_default (searchParams_get r ''offset'') ''0''))])]
        else [])"
  "snd (handle_get_record r env)
     = (if isValidTableName (split CHR ''/'' (pathname r) ! 2)
        then [(CallFirst, JStr (select_sql (split CHR ''/'' (pathname r) ! 2)),
               [PVal (JStr (split CHR ''/'' (pathname r) ! 3))])]
        else [])"
  "snd (handle_delete r env)
     = (if isValidTableName (split CHR ''/'' (pathname r) ! 2)
        then [(CallRun, JStr (delete_sql (split CHR ''/'' (pathname r) ! 2)),
               [PVal (JStr (split CHR ''/'' (pathname r) ! 3))])]
        else [])"
  by (simp_all add: handler_simps exec_simps sql_simps Let_def split: sum.splits)




section \<open>Listing records: limit and offset\<close>

lemma default_numbers:
  "parseInt js ''100'' = Num 100 \<Longrightarrow>
     parseInt js (or_default x ''100'') = bound_number js x 100"
  "parseInt js ''0'' = Num 0 \<Longrightarrow>
     parseInt js (or_default x ''0'') = bound_number js x 0"
  by (auto simp: or_default_def bound_number_def split: option.splits)

lemma list_records_outcome:
  assumes "isValidTableName (split CHR ''/'' (pathname r) ! 2)"
    and "stmt_all (DB env)
           (JStr (list_sql (split CHR ''/'' (pathname r) ! 2)))
           [PNumber (parseInt js (or_default (searchParams_get r ''limit'') ''100'')),
            PNumber (parseInt js (or_default (searchParams_get r ''offset'') ''0''))]
         = Inr result"
  shows "fst (handle_list_records js r env)
           = Inr (jsonResponse
                \<lparr>success = True, data = Some (JArr (d1_results result)), error = None,
                 meta = Some (d1_meta result)\<rparr> corsHeaders 200)"
  using assms by (simp add: handle_list_records_def exec_all_def list_sql_def Let_def)

text \<open>
  Claim C5, as amended. For \<^verbatim>\<open>GET /tables/{table}\<close> with a valid table name the handler
  makes one call, \<^verbatim>\<open>SELECT * FROM {table} LIMIT ? OFFSET ?\<close> with the two bind parameters
  (limit, offset), and answers with status 200 when the call returns. A parameter that the
  query string omits, or gives as the empty string, is bound as the default (100 for the
  limit, 0 for the offset). A non-empty value is bound as \<^verbatim>\<open>parseInt\<close> returns it: when it
  does not parse that is \<^verbatim>\<open>NaN\<close>, which is not replaced by the default and for which the
  handler raises no error of its own. This holds for every engine whose \<^verbatim>\<open>parseInt\<close> reads
  \<^verbatim>\<open>'100'\<close> as 100 and \<^verbatim>\<open>'0'\<close> as 0.
\<close>

theorem list_records_statement:
  assumes "isValidTableName t" and "request_method r = ''GET''" and "pathname r = table_path t"
    and "parseInt js ''100'' = Num 100" and "parseInt js ''0'' = Num 0"
  shows "snd (fetch js r env)
           = [(CallAll, JStr (''SELECT * FROM '' @ t @ '' LIMIT ? OFFSET ?''),
               [PNumber (bound_number js (searchParams_get r ''limit'') 100),
                PNumber (bound_number js (searchParams_get r ''offset'') 0)])] \<and>
         (\<forall>result.
            stmt_all (DB env) (JStr (''SELECT * FROM '' @ t @ '' LIMIT ? OFFSET ?''))
              [PNumber (bound_number js (searchParams_get r ''limit'') 100),
               PNumber (bound_number js (searchParams_get r ''offset'') 0)] = Inr result \<longrightarrow>
            fst (fetch js r env)
              = Inr (jsonResponse
                   \<lparr>success = True, data = Some (JArr (d1_results result)), error = None,
                    meta = Some (d1_meta result)\<rparr> corsHeaders 200)) \<and>
         bound_number js None 100 = Num 100 \<and> bound_number js None 0 = Num 0 \<and>
         bound_number js (Some []) 100 = Num 100 \<and> bound_number js (Some []) 0 = Num 0 \<and>
         (\<forall>v d. v \<noteq> [] \<longrightarrow> bound_number js (Some v) d = parseInt js v) \<and>
         (\<forall>v d. v \<noteq> [] \<and> parseInt js v = NaN \<longrightarrow> bound_number js (Some v) d = NaN)"
proof -
  have seg: "segment t" using assms(1) by (rule valid_is_segment)
  have m: "request_method r \<noteq> ''OPTIONS''" using assms(2) by simp
  have name: "split CHR ''/'' (pathname r) ! 2 = t"
    using table_path_match(3) [OF seg] assms(3) by simp
  have v: "isValidTableName (split CHR ''/'' (pathname r) ! 2)" using name assms(1) by simp
  have tb: "try_block js r env = handle_list_records js r env"
    using try_block_table(1) [OF seg assms(3,2)] .
  have calls: "snd (fetch js r env)
      = [(CallAll, JStr (''SELECT * FROM '' @ t @ '' LIMIT ? OFFSET ?''),
          [PNumber (bound_number js (searchParams_get r ''limit'') 100),
           PNumber (bound_number js (searchParams_get r ''offset'') 0)])]"
    using snd_fetch [OF m, of js env] tb handler_calls(2) [of js r env] v name
      default_numbers(1) [OF assms(4)] default_numbers(2) [OF assms(5)]
    by (simp add: list_sql_def)
  have answer: "fst (fetch js r env)
      = Inr (jsonResponse
           \<lparr>success = True, data = Some (JArr (d1_results result)), error = None,
            meta = Some (d1_meta result)\<rparr> corsHeaders 200)"
    if "stmt_all (DB env) (JStr (''SELECT * FROM '' @ t @ '' LIMIT ? OFFSET ?''))
          [PNumber (bound_number js (searchParams_get r ''limit'') 100),
           PNumber (bound_number js (searchParams_get r ''offset'') 0)] = Inr result"
    for result
  proof -
    have "fst (handle_list_records js r env)
        = Inr (jsonResponse
             \<lparr>success = True, data = Some (JArr (d1_results result)), error = None,
              meta = Some (d1_meta result)\<rparr> corsHeaders 200)"
      using list_records_outcome [OF v, of env js result] that name
        default_numbers(1) [OF assms(4)] default_numbers(2) [OF assms(5)]
      by (simp add: list_sql_def)
    then show ?thesis using fst_fetch(1) [OF m, of js env] tb by simp
  qed
  show ?thesis using calls answer by (simp add: bound_number_def)
qed

lemma sample_parseInt:
  "parseInt sample_js ''100'' = Num 100" "parseInt sample_js ''0'' = Num 0"
  "parseInt sample_js ''abc'' = NaN"
  by (simp_all add: sample_js_def)

lemma sample_list_abc:
  "fetch sample_js
     ((sample_request ''GET'' ''/tables/users'')\<lparr>searchParams := [(''limit'', ''abc'')]\<rparr>)
     sample_env
     = (Inr (jsonResponse
          \<lparr>success = True, data = Some (JArr [JObj [(''name'', JStr ''users'')]]),
           error = None, meta = Some JNull\<rparr> corsHeaders 200),
        [(CallAll, JStr ''SELECT * FROM users LIMIT ? OFFSET ?'',
          [PNumber NaN, PNumber (Num 0)])])"
  by (simp add: eval_simps)

theorem list_records_statement_witness:
  "isValidTableName ''users'' \<and>
   parseInt sample_js ''100'' = Num 100 \<and> parseInt sample_js ''0'' = Num 0 \<and>
   parseInt sample_js ''abc'' = NaN \<and>
   snd (fetch sample_js
          ((sample_request ''GET'' ''/tables/users'')\<lparr>searchParams := [(''limit'', ''abc'')]\<rparr>)
          sample_env)
     = [(CallAll, JStr ''SELECT * FROM users LIMIT ? OFFSET ?'', [PNumber NaN, PNumber (Num 0)])]"
  using list_records_statement [of "''users''"
      "(sample_request ''GET'' ''/tables/users'')\<lparr>searchParams := [(''limit'', ''abc'')]\<rparr>"
      sample_js sample_env]
  by (simp add: sample_simps searchParams_get_def bound_number_def)

text \<open>
  The claim as first stated also promised the default for a value that does not parse.
  \<^verbatim>\<open>GET /tables/users?limit=abc\<close> binds \<^verbatim>\<open>NaN\<close> for the limit, not 100.
\<close>

theorem unparsable_limit_counterexample:
  "parseInt sample_js ''abc'' = NaN \<and>
   snd (fetch sample_js
          ((sample_request ''GET'' ''/tables/users'')\<lparr>searchParams := [(''limit'', ''abc'')]\<rparr>)
          sample_env)
     = [(CallAll, JStr ''SELECT * FROM users LIMIT ? OFFSET ?'', [PNumber NaN, PNumber (Num 0)])] \<and>
   snd (fetch sample_js
          ((sample_request ''GET'' ''/tables/users'')\<lparr>searchParams := [(''limit'', ''abc'')]\<rparr>)
          sample_env)
     \<noteq> [(CallAll, JStr ''SELECT * FROM users LIMIT ? OFFSET ?'',
          [PNumber (Num 100), PNumber (Num 0)])]"
  by (simp add: sample_list_abc sample_parseInt)

section \<open>Status 404\<close>















section \<open>Bodies that are not objects\<close>

lemma keyless_iff: "\<not> is_object b \<Longrightarrow> keyless b = (\<not> truthy b \<or> length (object_keys b) = 0)"
  by (cases b) auto

lemma create_body:
  assumes "isValidTableName (split CHR ''/'' (pathname r) ! 2)" and "body_json r = Inr b"
  shows "\<not> truthy b \<or> length (object_keys b) = 0 \<Longrightarrow> handle_create r env = (Inr body_required, [])"
    and "\<not> (\<not> truthy b \<or> length (object_keys b) = 0) \<Longrightarrow>
           snd (handle_create r env)
             = [(CallRun, JStr (insert_sql (split CHR ''/'' (pathname r) ! 2) (object_keys b)),
                 map PVal (object_values b))]"
  using assms
  by (auto simp: handle_create_def Let_def exec_run_def insert_sql_def split: sum.splits)

lemma update_body:
  assumes "isValidTableName (split CHR ''/'' (pathname r) ! 2)" and "body_json r = Inr b"
  shows "\<not> truthy b \<or> length (object_keys b) = 0 \<Longrightarrow> handle_update r env = (Inr body_required, [])"
    and "\<not> (\<not> truthy b \<or> length (object_keys b) = 0) \<Longrightarrow>
           snd (handle_update r env)
             = [(CallRun, JStr (update_sql (split CHR ''/'' (pathname r) ! 2) (object_keys b)),
                 map PVal (object_values b) @ [PVal (JStr (split CHR ''/'' (pathname r) ! 3))])]"
  using assms
  by (auto simp: handle_update_def Let_def exec_run_def update_sql_def split: sum.splits)

text \<open>
  Claim C9, as amended. On \<^verbatim>\<open>POST /tables/{table}\<close> and \<^verbatim>\<open>PUT /tables/{table}/{id}\<close> with a
  valid table name, a body that is valid JSON but not an object is answered with status
  400 and the error \<^verbatim>\<open>Request body is required\<close>, without a database call, when it is
  \<^verbatim>\<open>null\<close>, a boolean, a number, the empty string or the empty array. A non-empty array
  or a non-empty string is not rejected: its indices are used as column names and its
  elements or characters as bound values of the statement the handler runs.
\<close>

theorem non_object_body:
  assumes "isValidTableName t" and "segment i" and "body_json r = Inr b" and "\<not> is_object b"
    and "(request_method r = ''POST'' \<and> pathname r = table_path t) \<or>
         (request_method r = ''PUT'' \<and> pathname r = record_path t i)"
  shows "(keyless b \<longrightarrow>
            fetch js r env
              = (Inr (jsonResponse (failure ''Request body is required'') corsHeaders 400), [])) \<and>
         (\<not> keyless b \<and> request_method r = ''POST'' \<longrightarrow>
            snd (fetch js r env)
              = [(CallRun, JStr (insert_sql t (object_keys b)), map PVal (object_values b))]) \<and>
         (\<not> keyless b \<and> request_method r = ''PUT'' \<longrightarrow>
            snd (fetch js r env)
              = [(CallRun, JStr (update_sql t (object_keys b)),
                  map PVal (object_values b) @ [PVal (JStr i)])])"
proof -
  have seg: "segment t" using assms(1) by (rule valid_is_segment)
  have k: "keyless b = (\<not> truthy b \<or> length (object_keys b) = 0)"
    using assms(4) by (rule keyless_iff)
  from assms(5) show ?thesis
  proof
    assume a: "request_method r = ''POST'' \<and> pathname r = table_path t"
    then have m: "request_method r \<noteq> ''OPTIONS''" by simp
    have tb: "try_block js r env = handle_create r env"
      using try_block_table(2) [OF seg] a by simp
    have name: "split CHR ''/'' (pathname r) ! 2 = t"
      using table_path_match(3) [OF seg] a by simp
    have v: "isValidTableName (split CHR ''/'' (pathname r) ! 2)" using name assms(1) by simp
    have "keyless b \<Longrightarrow> fetch js r env = (Inr body_required, [])"
      using create_body(1) [OF v assms(3), of env] k tb fetch_cases(1) [OF m, of js env] by simp
    moreover have "\<not> keyless b \<Longrightarrow> snd (fetch js r env)
        = [(CallRun, JStr (insert_sql t (object_keys b)), map PVal (object_values b))]"
      using create_body(2) [OF v assms(3), of env] k tb snd_fetch [OF m, of js env] name by simp
    ultimately show ?thesis using a by (auto simp: body_required_def)
  next
    assume a: "request_method r = ''PUT'' \<and> pathname r = record_path t i"
    then have m: "request_method r \<noteq> ''OPTIONS''" by simp
    have tb: "try_block js r env = handle_update r env"
      using try_block_record(2) [OF seg assms(2)] a by simp
    have name: "split CHR ''/'' (pathname r) ! 2 = t" "split CHR ''/'' (pathname r) ! 3 = i"
      using record_path_match(3,4) [OF seg assms(2)] a by simp_all
    have v: "isValidTableName (split CHR ''/'' (pathname r) ! 2)" using name assms(1) by simp
    have "keyless b \<Longrightarrow> fetch js r env = (Inr body_required, [])"
      using update_body(1) [OF v assms(3), of env] k tb fetch_cases(1) [OF m, of js env] by simp
    moreover have "\<not> keyless b \<Longrightarrow> snd (fetch js r env)
        = [(CallRun, JStr (update_sql t (object_keys b)),
            map PVal (object_values b) @ [PVal (JStr i)])]"
      using update_body(2) [OF v assms(3), of env] k tb snd_fetch [OF m, of js env] name by simp
    ultimately show ?thesis using a by (auto simp: body_required_def)
  qed
qed

lemma show_nat_Suc_0: "show_nat (Suc 0) = ''1''"
  using show_nat_small(2) by simp

theorem non_object_body_witness:
  "isValidTableName ''users'' \<and> segment ''7'' \<and> \<not> is_object (JNum 5) \<and> keyless (JNum 5) \<and>
   fetch sample_js ((sample_request ''PUT'' ''/tables/users/7'')\<lparr>body_json := Inr (JNum 5)\<rparr>)
     sample_env
     = (Inr (jsonResponse (failure ''Request body is required'') corsHeaders 400), []) \<and>
   \<not> is_object (JStr ''ab'') \<and> \<not> keyless (JStr ''ab'') \<and>
   snd (fetch sample_js
          ((sample_request ''PUT'' ''/tables/users/7'')\<lparr>body_json := Inr (JStr ''ab'')\<rparr>)
          sample_env)
     = [(CallRun, JStr ''UPDATE users SET 0 = ?, 1 = ? WHERE id = ?'',
         [PVal (JStr ''a''), PVal (JStr ''b''), PVal (JStr ''7'')])]"
  using non_object_body [of "''users''" "''7''"
      "(sample_request ''PUT'' ''/tables/users/7'')\<lparr>body_json := Inr (JNum 5)\<rparr>" "JNum 5"
      sample_js sample_env]
    non_object_body [of "''users''" "''7''"
      "(sample_request ''PUT'' ''/tables/users/7'')\<lparr>body_json := Inr (JStr ''ab'')\<rparr>"
      "JStr ''ab''" sample_js sample_env]
  by (simp add: sample_simps update_sql_def show_nat_small show_nat_Suc_0)

text \<open>
  The claim as first stated had every body that is not an object rejected.
  \<^verbatim>\<open>POST /tables/users\<close> with the body \<^verbatim>\<open>["x"]\<close> runs an \<^verbatim>\<open>INSERT\<close> with the column \<^verbatim>\<open>0\<close>.
\<close>

theorem array_body_counterexample:
  "\<not> is_object (JArr [JStr ''x'']) \<and>
   fetch sample_js
     ((sample_request ''POST'' ''/tables/users'')\<lparr>body_json := Inr (JArr [JStr ''x''])\<rparr>)
     sample_env
     = (Inr (jsonResponse
          \<lparr>success = True,
           data = Some (JObj [(''lastRowId'', JNum 7), (''changes'', JNum 0)]),
           error = None, meta = None\<rparr> corsHeaders 201),
        [(CallRun, JStr ''INSERT INTO users (0) VALUES (?)'', [PVal (JStr ''x'')])])"
  by (simp add: eval_simps show_nat_small)

section \<open>The response envelope\<close>

lemmas envelope_simps = body_envelope_ok_def envelope_ok_def

lemma envelope_read_handlers:
  "fst (handle_list_tables env) = Inr resp \<Longrightarrow> body_envelope_ok (resp_body resp)"
  "fst (handle_list_records js r env) = Inr resp \<Longrightarrow> body_envelope_ok (resp_body resp)"
  "fst (handle_get_record r env) = Inr resp \<Longrightarrow> body_envelope_ok (resp_body resp)"
  "fst (handle_query js r env) = Inr resp \<Longrightarrow> body_envelope_ok (resp_body resp)"
  by (auto simp: handler_simps Let_def exec_simps response_simps envelope_simps
      split: sum.splits option.splits if_splits)

lemma envelope_create:
  "fst (handle_create r env) = Inr resp \<Longrightarrow>
     (\<forall>j. resp_body resp = JsonBody j \<and> success j \<longrightarrow> error j = None) \<and>
     ((\<forall>c \<in> set (snd (handle_create r env)). run_reports_success env c) \<longrightarrow>
        body_envelope_ok (resp_body resp))"
  by (auto simp: handle_create_def Let_def exec_simps response_simps envelope_simps
      split: sum.splits option.splits if_splits)

lemma envelope_update:
  "fst (handle_update r env) = Inr resp \<Longrightarrow>
     (\<forall>j. resp_body resp = JsonBody j \<and> success j \<longrightarrow> error j = None) \<and>
     ((\<forall>c \<in> set (snd (handle_update r env)). run_reports_success env c) \<longrightarrow>
        body_envelope_ok (resp_body resp))"
  by (auto simp: handle_update_def Let_def exec_simps response_simps envelope_simps
      split: sum.splits option.splits if_splits)

lemma envelope_delete:
  "fst (handle_delete r env) = Inr resp \<Longrightarrow>
     (\<forall>j. resp_body resp = JsonBody j \<and> success j \<longrightarrow> error j = None) \<and>
     ((\<forall>c \<in> set (snd (handle_delete r env)). run_reports_success env c) \<longrightarrow>
        body_envelope_ok (resp_body resp))"
  by (auto simp: handle_delete_def Let_def exec_simps response_simps envelope_simps
      split: sum.splits option.splits if_splits)

lemma envelope_ok_success: "body_envelope_ok b \<Longrightarrow> b = JsonBody j \<Longrightarrow> success j \<Longrightarrow> error j = None"
  by (simp add: envelope_simps)

lemma envelope_try_block:
  assumes "try_block js r env = (Inr resp, calls)"
  shows "(\<forall>j. resp_body resp = JsonBody j \<and> success j \<longrightarrow> error j = None) \<and>
         ((\<forall>c \<in> set calls. run_reports_success env c) \<longrightarrow> body_envelope_ok (resp_body resp))"
proof -
  have rd: ?thesis if "body_envelope_ok (resp_body resp)"
    using that envelope_ok_success by blast
  have fs: "fst (try_block js r env) = Inr resp" "snd (try_block js r env) = calls"
    using assms by simp_all
  show ?thesis
  proof (cases rule: try_block_cases [of r js env])
    case list_tables
    show ?thesis using fs envelope_read_handlers(1) [of env resp] rd by (simp add: list_tables(3))
  next
    case list_records
    show ?thesis using fs envelope_read_handlers(2) [of js r env resp] rd
      by (simp add: list_records(3))
  next
    case get_record
    show ?thesis using fs envelope_read_handlers(3) [of r env resp] rd by (simp add: get_record(3))
  next
    case create
    show ?thesis using fs envelope_create [of r env resp] by (simp add: create(3))
  next
    case update
    show ?thesis using fs envelope_update [of r env resp] by (simp add: update(3))
  next
    case delete
    show ?thesis using fs envelope_delete [of r env resp] by (simp add: delete(3))
  next
    case query
    show ?thesis using fs envelope_read_handlers(4) [of js r env resp] rd by (simp add: query(3))
  next
    case docs
    then show ?thesis using assms by (auto simp: docs_response_def envelope_simps)
  next
    case none
    then show ?thesis using assms
      by (auto simp: route_not_found_def jsonResponse_def failure_def envelope_simps)
  qed
qed

lemma catch_block_envelope:
  "catch_block e = Inr resp \<Longrightarrow> body_envelope_ok (resp_body resp)"
  by (cases e) (auto simp: jsonResponse_def failure_def envelope_simps)

lemma envelope_by_call:
  assumes "fst (fetch js r env) = Inr response"
  shows "(\<forall>j. resp_body response = JsonBody j \<and> success j \<longrightarrow> error j = None) \<and>
         ((\<forall>c \<in> set (snd (fetch js r env)). run_reports_success env c) \<longrightarrow>
            body_envelope_ok (resp_body response))"
proof (cases "request_method r = ''OPTIONS''")
  case True
  then show ?thesis using assms by (auto simp: fetch_def envelope_simps)
next
  case False
  obtain x calls where tb: "try_block js r env = (x, calls)" by (cases "try_block js r env")
  show ?thesis
  proof (cases x)
    case (Inl e)
    then have "catch_block e = Inr response"
      using fetch_cases(2) [OF False, of js env e calls] tb assms by simp
    then show ?thesis using catch_block_envelope envelope_ok_success by blast
  next
    case (Inr resp)
    then show ?thesis
      using fetch_cases(1) [OF False, of js env resp calls] tb assms
        envelope_try_block [of js r env resp calls]
      by simp
  qed
qed

text \<open>
  Claim C7. Every JSON body the handler produces satisfies the envelope invariant:
  \<^verbatim>\<open>success = false\<close> comes with an \<^verbatim>\<open>error\<close> field and without a \<^verbatim>\<open>data\<close> field, and
  \<^verbatim>\<open>success = true\<close> comes without an \<^verbatim>\<open>error\<close> field. This holds on every path, the
  create, update and delete paths included, where the \<^verbatim>\<open>success\<close> field is copied from the
  result of \<^verbatim>\<open>run()\<close>: by the interface of the database binding \<^verbatim>\<open>run()\<close> returns the result
  of a statement that succeeded and throws otherwise, which is the hypothesis.
\<close>

theorem envelope_invariant:
  assumes "\<And>q ps result. stmt_run (DB env) q ps = Inr result \<Longrightarrow> d1_success result"
  shows "\<forall>response. fst (fetch js r env) = Inr response \<longrightarrow>
           body_envelope_ok (resp_body response)"
proof (intro allI impI)
  fix response
  assume a: "fst (fetch js r env) = Inr response"
  have "run_reports_success env c" for c
  proof (cases "(env, c)" rule: run_reports_success.cases)
    case (1 env' q ps)
    then show ?thesis using assms [of q ps] by (auto split: sum.splits)
  next
    case (2 env' q ps)
    then show ?thesis by simp
  next
    case (3 env' q ps)
    then show ?thesis by simp
  qed
  then show "body_envelope_ok (resp_body response)" using envelope_by_call [OF a] by blast
qed

lemma sample_create:
  "fetch sample_js
     ((sample_request ''POST'' ''/tables/users'')\<lparr>body_json := Inr (JObj [(''name'', JStr ''A'')])\<rparr>)
     sample_env
     = (Inr (jsonResponse
          \<lparr>success = True,
           data = Some (JObj [(''lastRowId'', JNum 7), (''changes'', JNum 0)]),
           error = None, meta = None\<rparr> corsHeaders 201),
        [(CallRun, JStr ''INSERT INTO users (name) VALUES (?)'', [PVal (JStr ''A'')])])"
  by (simp add: eval_simps)

lemma sample_run_succeeds:
  "stmt_run (DB sample_env) q ps = Inr result \<Longrightarrow> d1_success result"
  by (auto simp: sample_env_def sample_db_def)

theorem envelope_invariant_witness:
  "stmt_run (DB sample_env) (JStr ''INSERT INTO users (name) VALUES (?)'') [PVal (JStr ''A'')]
     = Inr \<lparr>d1_success = True, last_row_id = 7, changes = 0\<rparr> \<and>
   fst (fetch sample_js
          ((sample_request ''POST'' ''/tables/users'')
             \<lparr>body_json := Inr (JObj [(''name'', JStr ''A'')])\<rparr>) sample_env)
     = Inr (jsonResponse
          \<lparr>success = True,
           data = Some (JObj [(''lastRowId'', JNum 7), (''changes'', JNum 0)]),
           error = None, meta = None\<rparr> corsHeaders 201) \<and>
   body_envelope_ok
     (JsonBody \<lparr>success = True,
        data = Some (JObj [(''lastRowId'', JNum 7), (''changes'', JNum 0)]),
        error = None, meta = None\<rparr>)"
  using envelope_invariant [of sample_env sample_js
      "(sample_request ''POST'' ''/tables/users'')\<lparr>body_json := Inr (JObj [(''name'', JStr ''A'')])\<rparr>",
      OF sample_run_succeeds]
  by (simp add: sample_create jsonResponse_def) (simp add: sample_env_def sample_db_def)

section \<open>Thrown errors\<close>










text \<open>
  What the handler does with the other thrown values: a value without a message, or with
  an empty one, is answered with the fixed text, and for a thrown \<^verbatim>\<open>null\<close> or \<^verbatim>\<open>undefined\<close>
  the handler produces no response.
\<close>

lemma catch_block_other:
  "catch_block (Thrown None) = Inr (jsonResponse (failure ''Internal server error'') corsHeaders 500)"
  "catch_block (Thrown (Some [])) = Inr (jsonResponse (failure ''Internal server error'') corsHeaders 500)"
  "status_of (catch_block ThrownNull) = None" "status_of (catch_block ThrownUndefined) = None"
  by (simp_all add: error_text_def status_of_def)




end
